theory Spec2Isabelle
  imports Complex_Main
begin

section \<open>Numeric model\<close>

text \<open>
  The two scripts compute with numpy arrays of \<open>float64\<close> and \<open>complex128\<close>.
  The embedding reads a float as a real number and a complex float as a complex number, a
  one-dimensional array as a list and a two-dimensional array as a list of rows.
  Every number that \<open>create_superoperator.py\<close> computes from its constants is a
  multiple of \<open>1/4\<close> of small size in each component, which double precision represents
  without rounding, so for that script the model and the floats agree. For
  \<open>homemade_wigner.py\<close> the model is the exact-arithmetic reading of the formulas.
\<close>

type_synonym cvec = "complex list"
type_synonym cmat = "complex list list"

text \<open>\<open>c * A\<close> for a scalar \<open>c\<close> and an array \<open>A\<close>.\<close>

definition smult :: "complex \<Rightarrow> cmat \<Rightarrow> cmat" where
  "smult c A = map (map (\<lambda>x. c * x)) A"

text \<open>\<open>A + B\<close> and \<open>A - B\<close> on arrays of one shape.\<close>

definition madd :: "cmat \<Rightarrow> cmat \<Rightarrow> cmat" where
  "madd A B = map2 (map2 (\<lambda>x y. x + y)) A B"

definition msub :: "cmat \<Rightarrow> cmat \<Rightarrow> cmat" where
  "msub A B = map2 (map2 (\<lambda>x y. x - y)) A B"

text \<open>\<open>np.kron(A, B)\<close>: the block matrix whose block \<open>(i, j)\<close> is \<open>A[i, j] * B\<close>.\<close>

definition kron :: "cmat \<Rightarrow> cmat \<Rightarrow> cmat" where
  "kron A B = concat (map (\<lambda>ra. map (\<lambda>rb. concat (map (\<lambda>a. map (\<lambda>b. a * b) rb) ra)) B) A)"

text \<open>\<open>A.T\<close> of a two-dimensional array.\<close>

fun mat_T :: "cmat \<Rightarrow> cmat" where
  "mat_T [] = []"
| "mat_T [r] = map (\<lambda>x. [x]) r"
| "mat_T (r # rs) = map2 (#) r (mat_T rs)"

text \<open>\<open>A.flatten()\<close>: the rows one after the other (row-major order).\<close>

definition flatten :: "cmat \<Rightarrow> cvec" where
  "flatten A = concat A"

text \<open>
  \<open>np.dot\<close> of two one-dimensional arrays (a sum of products, with no conjugation) and of
  a two-dimensional with a one-dimensional array. The \<open>.T\<close> of a one-dimensional array
  is the array itself.
\<close>

definition dot :: "cvec \<Rightarrow> cvec \<Rightarrow> complex" where
  "dot u v = sum_list (map2 (\<lambda>x y. x * y) u v)"

definition matvec :: "cmat \<Rightarrow> cvec \<Rightarrow> cvec" where
  "matvec M v = map (\<lambda>row. dot row v) M"

section \<open>create\_superoperator.py\<close>

subsection \<open>Spin operators\<close>

definition uni :: cmat where
  "uni = [[1, 0],
          [0, 1]]"

definition Ix :: cmat where
  "Ix = smult (1 / 2) [[0, 1],
                       [1, 0]]"

definition Iy :: cmat where
  "Iy = smult (Complex 0 (1 / 2)) [[0, - 1],
                                   [1, 0]]"

definition Iz :: cmat where
  "Iz = smult (1 / 2) [[1, 0],
                       [0, - 1]]"

definition E :: cmat where "E = kron uni uni"
definition pIz :: cmat where "pIz = kron Iz uni"
definition pSz :: cmat where "pSz = kron uni Iz"
definition pIzSz :: cmat where "pIzSz = smult 2 (kron Iz Iz)"

definition pIx :: cmat where "pIx = kron Ix uni"
definition pIy :: cmat where "pIy = kron Iy uni"
definition pIxSz :: cmat where "pIxSz = smult 2 (kron Ix Iz)"
definition pIySz :: cmat where "pIySz = smult 2 (kron Iy Iz)"

definition pSx :: cmat where "pSx = kron uni Ix"
definition pSy :: cmat where "pSy = kron uni Iy"
definition pIzSx :: cmat where "pIzSx = smult 2 (kron Iz Ix)"
definition pIzSy :: cmat where "pIzSy = smult 2 (kron Iz Iy)"

definition pIxSx :: cmat where "pIxSx = smult 2 (kron Ix Ix)"
definition pIySy :: cmat where "pIySy = smult 2 (kron Iy Iy)"
definition pIxSy :: cmat where "pIxSy = smult 2 (kron Ix Iy)"
definition pIySx :: cmat where "pIySx = smult 2 (kron Iy Ix)"

subsection \<open>Flattened product operators\<close>

definition vE :: cvec where "vE = flatten E"
definition vIz :: cvec where "vIz = flatten pIz"
definition vSz :: cvec where "vSz = flatten pSz"
definition vIzSz :: cvec where "vIzSz = flatten pIzSz"

definition vIx :: cvec where "vIx = flatten pIx"
definition vIy :: cvec where "vIy = flatten pIy"
definition vIxSz :: cvec where "vIxSz = flatten pIxSz"
definition vIySz :: cvec where "vIySz = flatten pIySz"

definition vSx :: cvec where "vSx = flatten pSx"
definition vSy :: cvec where "vSy = flatten pSy"
definition vIzSx :: cvec where "vIzSx = flatten pIzSx"
definition vIzSy :: cvec where "vIzSy = flatten pIzSy"

definition vIxSx :: cvec where "vIxSx = flatten pIxSx"
definition vIySy :: cvec where "vIySy = flatten pIySy"
definition vIxSy :: cvec where "vIxSy = flatten pIxSy"
definition vIySx :: cvec where "vIySx = flatten pIySx"

subsection \<open>Hilbert space Hamiltonian\<close>

definition H :: cmat where
  "H = madd (madd (madd (madd (smult 1 pIz) (smult 2 pSz))
                        (smult 3 (madd (madd pIxSx pIySy) pIzSz)))
                  (smult 4 (madd pIx pSx)))
            (smult 5 (madd pIy pSy))"

subsection \<open>Liouville space transformation\<close>

text \<open>
  Line 99, \<open>Hs = np.kron(H, E.T) - np.kron(E, H.T)\<close>, as a function of the Hamiltonian
  (the spec calls it \<open>toSuperoperator\<close>), and the script's own \<open>Hs\<close>.
\<close>

definition Hs_of :: "cmat \<Rightarrow> cmat" where
  "Hs_of M = msub (kron M (mat_T E)) (kron E (mat_T M))"

definition Hs :: cmat where
  "Hs = Hs_of H"

definition svec :: "complex \<Rightarrow> cvec \<Rightarrow> cvec" where
  "svec c v = map (\<lambda>x. c * x) v"

definition vector_operators :: "cvec list" where
  "vector_operators = [svec (1 / 2) vE, vIx, vIy, vIz, vSx, vSy, vSz, vIxSz, vIySz,
                       vIzSx, vIzSy, vIxSx, vIxSy, vIySx, vIySy, vIzSz]"

text \<open>
  numpy's complex division does not raise on a zero divisor: it stores a \<open>nan\<close>. HOL's
  \<open>x / 0\<close> is \<open>0\<close>, so the model makes the undefined quotient a value of its own,
  \<open>None\<close>.
\<close>

definition np_div :: "complex \<Rightarrow> complex \<Rightarrow> complex option" where
  "np_div x y = (if y = 0 then None else Some (x / y))"

text \<open>The right-hand side of line 117, for the row \<open>r\<close> and the column \<open>c\<close>.\<close>

definition Hsp_entry :: "cmat \<Rightarrow> nat \<Rightarrow> nat \<Rightarrow> complex option" where
  "Hsp_entry M r c =
     (let rop = vector_operators ! r; cop = vector_operators ! c
      in np_div (dot rop (matvec M cop)) (dot rop rop))"

text \<open>
  Lines 106 to 117: the array of zeros, and the two nested loops that store one entry at
  each \<open>(r, c)\<close>. Both indices stay below 16, the length of \<open>vector_operators\<close> and
  the size of the array.
\<close>

definition Hsp_of :: "cmat \<Rightarrow> complex option list list" where
  "Hsp_of M =
     fold (\<lambda>r A. fold (\<lambda>c A. A[r := (A ! r)[c := Hsp_entry M r c]]) [0..<16] A)
          [0..<16] (replicate 16 (replicate 16 (Some 0)))"

definition Hsp :: "complex option list list" where
  "Hsp = Hsp_of Hs"

section \<open>homemade\_wigner.py\<close>

text \<open>The m prime and m values, \<open>np.array([2, 1, 0, -1, -2])\<close>.\<close>

definition plus_to_minus_two :: "int list" where
  "plus_to_minus_two = [2, 1, 0, - 1, - 2]"

text \<open>The reduced Wigner functions, a 5x5 array of reals that depends on \<open>beta\<close> alone.\<close>

definition red_wig :: "real \<Rightarrow> real list list" where
  "red_wig beta =
    [[cos (beta / 2) ^ 4, - sin beta * (1 + cos beta) / 2, sqrt (3 / 8) * sin beta ^ 2,
      - sin beta * (1 - cos beta) / 2, sin (beta / 2) ^ 4],

     [sin beta * (1 + cos beta) / 2, (2 * cos beta - 1) * (1 + cos beta) / 2,
      - sqrt (3 / 2) * sin beta * cos beta, (2 * cos beta + 1) * (1 - cos beta) / 2,
      - sin beta * (1 - cos beta) / 2],

     [sqrt (3 / 8) * sin beta ^ 2, sqrt (3 / 2) * sin beta * cos beta,
      (3 * cos beta ^ 2 - 1) / 2, - sqrt (3 / 2) * sin beta * cos beta,
      sqrt (3 / 8) * sin beta ^ 2],

     [sin beta * (1 - cos beta) / 2, (2 * cos beta + 1) * (1 - cos beta) / 2,
      sqrt (3 / 2) * sin beta * cos beta, (2 * cos beta - 1) * (1 + cos beta) / 2,
      - sin beta * (1 + cos beta) / 2],

     [sin (beta / 2) ^ 4, sin beta * (1 - cos beta) / 2, sqrt (3 / 8) * sin beta ^ 2,
      sin beta * (1 + cos beta) / 2, cos (beta / 2) ^ 4]]"

text \<open>
  The right-hand side of line 47,
  \<open>np.exp(-1j*mp*alpha)*red_wig[row,col]*np.exp(-1j*m*gamma)\<close>, with \<open>mp\<close> and
  \<open>m\<close> read from \<open>plus_to_minus_two\<close> at the row and the column.
\<close>

definition wigner_entry :: "real \<Rightarrow> real \<Rightarrow> real \<Rightarrow> nat \<Rightarrow> nat \<Rightarrow> complex" where
  "wigner_entry alpha beta gamma row col =
     (let mp = plus_to_minus_two ! row; m = plus_to_minus_two ! col
      in exp (- \<i> * of_int mp * of_real alpha) * of_real (red_wig beta ! row ! col)
           * exp (- \<i> * of_int m * of_real gamma))"

text \<open>
  \<open>generate_wigner\<close>: the 5x5 array of zeros and the two loops over \<open>range(5)\<close>
  that fill it. The argument is the triplet of Euler angles.
\<close>

fun generate_wigner :: "real \<times> real \<times> real \<Rightarrow> cmat" where
  "generate_wigner (alpha, beta, gamma) =
     fold (\<lambda>row W. fold (\<lambda>col W. W[row := (W ! row)[col := wigner_entry alpha beta gamma row col]])
                         [0..<5] W)
          [0..<5] (replicate 5 (replicate 5 0))"

section \<open>Notions the properties are stated with\<close>

text \<open>
  The sixteen product operators in the order the specification fixes for the rows and columns
  of the projected superoperator: the identity, then \<open>Ix, Iy, Iz, Sx, Sy, Sz, IxSz, IySz,
  IzSx, IzSy, IxSx, IxSy, IySx, IySy, IzSz\<close>.
\<close>

definition product_operators :: "cmat list" where
  "product_operators = [E, pIx, pIy, pIz, pSx, pSy, pSz, pIxSz, pIySz,
                        pIzSx, pIzSy, pIxSx, pIxSy, pIySx, pIySy, pIzSz]"

text \<open>
  The trace inner product in the specification's words: the sum of the elementwise products
  of one matrix and the transpose of the other.
\<close>

definition trace_ip :: "cmat \<Rightarrow> cmat \<Rightarrow> complex" where
  "trace_ip A B = sum_list (map2 (\<lambda>x y. x * y) (flatten A) (flatten (mat_T B)))"

text \<open>A 4x4 array: four rows of four entries.\<close>

definition is_4x4 :: "cmat \<Rightarrow> bool" where
  "is_4x4 A = (length A = 4 \<and> list_all (\<lambda>row. length row = 4) A)"

text \<open>Matrix product, conjugate transpose and identity matrix.\<close>

definition mat_mul :: "cmat \<Rightarrow> cmat \<Rightarrow> cmat" where
  "mat_mul A B = map (\<lambda>row. map (\<lambda>col. dot row col) (mat_T B)) A"

definition mat_H :: "cmat \<Rightarrow> cmat" where
  "mat_H A = mat_T (map (map cnj) A)"

definition identity :: "nat \<Rightarrow> cmat" where
  "identity n = map (\<lambda>i. map (\<lambda>j. if i = j then 1 else 0) [0..<n]) [0..<n]"

section \<open>The loops that fill an array\<close>

text \<open>
  Both scripts fill an array of zeros entry by entry, in two nested loops over \<open>range(n)\<close>.
  After the loops the array holds, at every position, the value computed for that position.
\<close>

lemma fill_inner:
  "r < length A \<Longrightarrow> n \<le> length (A ! r) \<Longrightarrow>
   fold (\<lambda>c A. A[r := (A ! r)[c := f c]]) [0..<n] A = A[r := map f [0..<n] @ drop n (A ! r)]"
proof (induction n)
  case 0
  then show ?case by simp
next
  case (Suc n)
  then have n: "n < length (A ! r)" by simp
  have "(map f [0..<n] @ drop n (A ! r))[n := f n] = map f [0..<n] @ (drop n (A ! r))[0 := f n]"
    by (simp add: list_update_append)
  also have "(drop n (A ! r))[0 := f n] = f n # drop (Suc n) (A ! r)"
    using n by (simp add: Cons_nth_drop_Suc [symmetric])
  finally show ?case using Suc by simp
qed

lemma fill_outer:
  "n \<le> length A \<Longrightarrow> \<forall>r<n. length (A ! r) = k \<Longrightarrow>
   fold (\<lambda>r A. fold (\<lambda>c A. A[r := (A ! r)[c := f r c]]) [0..<k] A) [0..<n] A
     = map (\<lambda>r. map (f r) [0..<k]) [0..<n] @ drop n A"
proof (induction n)
  case 0
  then show ?case by simp
next
  case (Suc n)
  let ?B = "map (\<lambda>r. map (f r) [0..<k]) [0..<n] @ drop n A"
  have n: "n < length A" using Suc.prems by simp
  have B: "n < length ?B" "?B ! n = A ! n" "k \<le> length (?B ! n)"
    using Suc.prems n by (simp_all add: nth_append)
  have "fold (\<lambda>c A. A[n := (A ! n)[c := f n c]]) [0..<k] ?B = ?B[n := map (f n) [0..<k] @ drop k (?B ! n)]"
    using B by (intro fill_inner) simp_all
  also have "\<dots> = ?B[n := map (f n) [0..<k]]"
    using B Suc.prems by simp
  also have "\<dots> = map (\<lambda>r. map (f r) [0..<k]) [0..<n] @ (drop n A)[0 := map (f n) [0..<k]]"
    by (simp add: list_update_append)
  also have "(drop n A)[0 := map (f n) [0..<k]] = map (f n) [0..<k] # drop (Suc n) A"
    using n by (simp add: Cons_nth_drop_Suc [symmetric])
  finally show ?case using Suc by simp
qed

lemma Hsp_of_closed:
  "Hsp_of M = map (\<lambda>r. map (Hsp_entry M r) [0..<16]) [0..<16]"
  unfolding Hsp_of_def by (subst fill_outer) simp_all

section \<open>The constants of create\_superoperator.py\<close>

lemma range_16: "[0..<16] = [0, 1, 2, 3, 4, 5, 6, 7, 8, 9, 10, 11, 12, 13, 14, 15]"
  by code_simp

lemma range_4: "[0..<4] = [0, 1, 2, 3]"
  by code_simp

lemma all_below_16: "list_all P [0..<16] \<Longrightarrow> r < 16 \<Longrightarrow> P r"
  by (simp add: list_all_iff)

lemma all_below_4: "list_all P [0..<4] \<Longrightarrow> i < 4 \<Longrightarrow> P i"
  by (simp add: list_all_iff)

text \<open>The sixteen product operators, written out.\<close>

lemmas spin_defs = uni_def Ix_def Iy_def Iz_def smult_def kron_def

lemma E_val: "E =
   [[1, 0, 0, 0],
    [0, 1, 0, 0],
    [0, 0, 1, 0],
    [0, 0, 0, 1]]"
  by (simp add: E_def spin_defs complex_eq_iff)

lemma pIx_val: "pIx =
   [[0, 0, 1 / 2, 0],
    [0, 0, 0, 1 / 2],
    [1 / 2, 0, 0, 0],
    [0, 1 / 2, 0, 0]]"
  by (simp add: pIx_def spin_defs complex_eq_iff)

lemma pIy_val: "pIy =
   [[0, 0, Complex 0 (- (1 / 2)), 0],
    [0, 0, 0, Complex 0 (- (1 / 2))],
    [Complex 0 (1 / 2), 0, 0, 0],
    [0, Complex 0 (1 / 2), 0, 0]]"
  by (simp add: pIy_def spin_defs complex_eq_iff)

lemma pIz_val: "pIz =
   [[1 / 2, 0, 0, 0],
    [0, 1 / 2, 0, 0],
    [0, 0, - (1 / 2), 0],
    [0, 0, 0, - (1 / 2)]]"
  by (simp add: pIz_def spin_defs complex_eq_iff)

lemma pSx_val: "pSx =
   [[0, 1 / 2, 0, 0],
    [1 / 2, 0, 0, 0],
    [0, 0, 0, 1 / 2],
    [0, 0, 1 / 2, 0]]"
  by (simp add: pSx_def spin_defs complex_eq_iff)

lemma pSy_val: "pSy =
   [[0, Complex 0 (- (1 / 2)), 0, 0],
    [Complex 0 (1 / 2), 0, 0, 0],
    [0, 0, 0, Complex 0 (- (1 / 2))],
    [0, 0, Complex 0 (1 / 2), 0]]"
  by (simp add: pSy_def spin_defs complex_eq_iff)

lemma pSz_val: "pSz =
   [[1 / 2, 0, 0, 0],
    [0, - (1 / 2), 0, 0],
    [0, 0, 1 / 2, 0],
    [0, 0, 0, - (1 / 2)]]"
  by (simp add: pSz_def spin_defs complex_eq_iff)

lemma pIxSz_val: "pIxSz =
   [[0, 0, 1 / 2, 0],
    [0, 0, 0, - (1 / 2)],
    [1 / 2, 0, 0, 0],
    [0, - (1 / 2), 0, 0]]"
  by (simp add: pIxSz_def spin_defs complex_eq_iff)

lemma pIySz_val: "pIySz =
   [[0, 0, Complex 0 (- (1 / 2)), 0],
    [0, 0, 0, Complex 0 (1 / 2)],
    [Complex 0 (1 / 2), 0, 0, 0],
    [0, Complex 0 (- (1 / 2)), 0, 0]]"
  by (simp add: pIySz_def spin_defs complex_eq_iff)

lemma pIzSx_val: "pIzSx =
   [[0, 1 / 2, 0, 0],
    [1 / 2, 0, 0, 0],
    [0, 0, 0, - (1 / 2)],
    [0, 0, - (1 / 2), 0]]"
  by (simp add: pIzSx_def spin_defs complex_eq_iff)

lemma pIzSy_val: "pIzSy =
   [[0, Complex 0 (- (1 / 2)), 0, 0],
    [Complex 0 (1 / 2), 0, 0, 0],
    [0, 0, 0, Complex 0 (1 / 2)],
    [0, 0, Complex 0 (- (1 / 2)), 0]]"
  by (simp add: pIzSy_def spin_defs complex_eq_iff)

lemma pIxSx_val: "pIxSx =
   [[0, 0, 0, 1 / 2],
    [0, 0, 1 / 2, 0],
    [0, 1 / 2, 0, 0],
    [1 / 2, 0, 0, 0]]"
  by (simp add: pIxSx_def spin_defs complex_eq_iff)

lemma pIxSy_val: "pIxSy =
   [[0, 0, 0, Complex 0 (- (1 / 2))],
    [0, 0, Complex 0 (1 / 2), 0],
    [0, Complex 0 (- (1 / 2)), 0, 0],
    [Complex 0 (1 / 2), 0, 0, 0]]"
  by (simp add: pIxSy_def spin_defs complex_eq_iff)

lemma pIySx_val: "pIySx =
   [[0, 0, 0, Complex 0 (- (1 / 2))],
    [0, 0, Complex 0 (- (1 / 2)), 0],
    [0, Complex 0 (1 / 2), 0, 0],
    [Complex 0 (1 / 2), 0, 0, 0]]"
  by (simp add: pIySx_def spin_defs complex_eq_iff)

lemma pIySy_val: "pIySy =
   [[0, 0, 0, - (1 / 2)],
    [0, 0, 1 / 2, 0],
    [0, 1 / 2, 0, 0],
    [- (1 / 2), 0, 0, 0]]"
  by (simp add: pIySy_def spin_defs complex_eq_iff)

lemma pIzSz_val: "pIzSz =
   [[1 / 2, 0, 0, 0],
    [0, - (1 / 2), 0, 0],
    [0, 0, - (1 / 2), 0],
    [0, 0, 0, 1 / 2]]"
  by (simp add: pIzSz_def spin_defs complex_eq_iff)

lemmas op_vals = E_val pIx_val pIy_val pIz_val pSx_val pSy_val pSz_val pIxSz_val pIySz_val pIzSx_val pIzSy_val pIxSx_val pIxSy_val pIySx_val pIySy_val pIzSz_val

lemma H_val: "H =
   [[3, Complex 2 (- (5 / 2)), Complex 2 (- (5 / 2)), 0],
    [Complex 2 (5 / 2), - 2, 3, Complex 2 (- (5 / 2))],
    [Complex 2 (5 / 2), 3, - 1, Complex 2 (- (5 / 2))],
    [0, Complex 2 (5 / 2), Complex 2 (5 / 2), 0]]"
  by (simp add: H_def madd_def smult_def op_vals complex_eq_iff)

lemma Hs_val: "Hs =
   [[0, Complex (- 2) (- (5 / 2)), Complex (- 2) (- (5 / 2)), 0, Complex 2 (- (5 / 2)), 0, 0, 0, Complex 2 (- (5 / 2)), 0, 0, 0, 0, 0, 0, 0],
    [Complex (- 2) (5 / 2), 5, - 3, Complex (- 2) (- (5 / 2)), 0, Complex 2 (- (5 / 2)), 0, 0, 0, Complex 2 (- (5 / 2)), 0, 0, 0, 0, 0, 0],
    [Complex (- 2) (5 / 2), - 3, 4, Complex (- 2) (- (5 / 2)), 0, 0, Complex 2 (- (5 / 2)), 0, 0, 0, Complex 2 (- (5 / 2)), 0, 0, 0, 0, 0],
    [0, Complex (- 2) (5 / 2), Complex (- 2) (5 / 2), 3, 0, 0, 0, Complex 2 (- (5 / 2)), 0, 0, 0, Complex 2 (- (5 / 2)), 0, 0, 0, 0],
    [Complex 2 (5 / 2), 0, 0, 0, - 5, Complex (- 2) (- (5 / 2)), Complex (- 2) (- (5 / 2)), 0, 3, 0, 0, 0, Complex 2 (- (5 / 2)), 0, 0, 0],
    [0, Complex 2 (5 / 2), 0, 0, Complex (- 2) (5 / 2), 0, - 3, Complex (- 2) (- (5 / 2)), 0, 3, 0, 0, 0, Complex 2 (- (5 / 2)), 0, 0],
    [0, 0, Complex 2 (5 / 2), 0, Complex (- 2) (5 / 2), - 3, - 1, Complex (- 2) (- (5 / 2)), 0, 0, 3, 0, 0, 0, Complex 2 (- (5 / 2)), 0],
    [0, 0, 0, Complex 2 (5 / 2), 0, Complex (- 2) (5 / 2), Complex (- 2) (5 / 2), - 2, 0, 0, 0, 3, 0, 0, 0, Complex 2 (- (5 / 2))],
    [Complex 2 (5 / 2), 0, 0, 0, 3, 0, 0, 0, - 4, Complex (- 2) (- (5 / 2)), Complex (- 2) (- (5 / 2)), 0, Complex 2 (- (5 / 2)), 0, 0, 0],
    [0, Complex 2 (5 / 2), 0, 0, 0, 3, 0, 0, Complex (- 2) (5 / 2), 1, - 3, Complex (- 2) (- (5 / 2)), 0, Complex 2 (- (5 / 2)), 0, 0],
    [0, 0, Complex 2 (5 / 2), 0, 0, 0, 3, 0, Complex (- 2) (5 / 2), - 3, 0, Complex (- 2) (- (5 / 2)), 0, 0, Complex 2 (- (5 / 2)), 0],
    [0, 0, 0, Complex 2 (5 / 2), 0, 0, 0, 3, 0, Complex (- 2) (5 / 2), Complex (- 2) (5 / 2), - 1, 0, 0, 0, Complex 2 (- (5 / 2))],
    [0, 0, 0, 0, Complex 2 (5 / 2), 0, 0, 0, Complex 2 (5 / 2), 0, 0, 0, - 3, Complex (- 2) (- (5 / 2)), Complex (- 2) (- (5 / 2)), 0],
    [0, 0, 0, 0, 0, Complex 2 (5 / 2), 0, 0, 0, Complex 2 (5 / 2), 0, 0, Complex (- 2) (5 / 2), 2, - 3, Complex (- 2) (- (5 / 2))],
    [0, 0, 0, 0, 0, 0, Complex 2 (5 / 2), 0, 0, 0, Complex 2 (5 / 2), 0, Complex (- 2) (5 / 2), - 3, 1, Complex (- 2) (- (5 / 2))],
    [0, 0, 0, 0, 0, 0, 0, Complex 2 (5 / 2), 0, 0, 0, Complex 2 (5 / 2), 0, Complex (- 2) (5 / 2), Complex (- 2) (5 / 2), 0]]"
  by (simp add: Hs_def Hs_of_def H_val E_val msub_def kron_def complex_eq_iff)

lemma vector_operators_val: "vector_operators =
   [[1 / 2, 0, 0, 0, 0, 1 / 2, 0, 0, 0, 0, 1 / 2, 0, 0, 0, 0, 1 / 2],
    [0, 0, 1 / 2, 0, 0, 0, 0, 1 / 2, 1 / 2, 0, 0, 0, 0, 1 / 2, 0, 0],
    [0, 0, Complex 0 (- (1 / 2)), 0, 0, 0, 0, Complex 0 (- (1 / 2)), Complex 0 (1 / 2), 0, 0, 0, 0, Complex 0 (1 / 2), 0, 0],
    [1 / 2, 0, 0, 0, 0, 1 / 2, 0, 0, 0, 0, - (1 / 2), 0, 0, 0, 0, - (1 / 2)],
    [0, 1 / 2, 0, 0, 1 / 2, 0, 0, 0, 0, 0, 0, 1 / 2, 0, 0, 1 / 2, 0],
    [0, Complex 0 (- (1 / 2)), 0, 0, Complex 0 (1 / 2), 0, 0, 0, 0, 0, 0, Complex 0 (- (1 / 2)), 0, 0, Complex 0 (1 / 2), 0],
    [1 / 2, 0, 0, 0, 0, - (1 / 2), 0, 0, 0, 0, 1 / 2, 0, 0, 0, 0, - (1 / 2)],
    [0, 0, 1 / 2, 0, 0, 0, 0, - (1 / 2), 1 / 2, 0, 0, 0, 0, - (1 / 2), 0, 0],
    [0, 0, Complex 0 (- (1 / 2)), 0, 0, 0, 0, Complex 0 (1 / 2), Complex 0 (1 / 2), 0, 0, 0, 0, Complex 0 (- (1 / 2)), 0, 0],
    [0, 1 / 2, 0, 0, 1 / 2, 0, 0, 0, 0, 0, 0, - (1 / 2), 0, 0, - (1 / 2), 0],
    [0, Complex 0 (- (1 / 2)), 0, 0, Complex 0 (1 / 2), 0, 0, 0, 0, 0, 0, Complex 0 (1 / 2), 0, 0, Complex 0 (- (1 / 2)), 0],
    [0, 0, 0, 1 / 2, 0, 0, 1 / 2, 0, 0, 1 / 2, 0, 0, 1 / 2, 0, 0, 0],
    [0, 0, 0, Complex 0 (- (1 / 2)), 0, 0, Complex 0 (1 / 2), 0, 0, Complex 0 (- (1 / 2)), 0, 0, Complex 0 (1 / 2), 0, 0, 0],
    [0, 0, 0, Complex 0 (- (1 / 2)), 0, 0, Complex 0 (- (1 / 2)), 0, 0, Complex 0 (1 / 2), 0, 0, Complex 0 (1 / 2), 0, 0, 0],
    [0, 0, 0, - (1 / 2), 0, 0, 1 / 2, 0, 0, 1 / 2, 0, 0, - (1 / 2), 0, 0, 0],
    [1 / 2, 0, 0, 0, 0, - (1 / 2), 0, 0, 0, 0, - (1 / 2), 0, 0, 0, 0, 1 / 2]]"
  by (simp add: vector_operators_def svec_def flatten_def op_vals vE_def vIx_def vIy_def vIz_def vSx_def vSy_def vSz_def vIxSz_def vIySz_def vIzSx_def vIzSy_def vIxSx_def vIxSy_def vIySx_def vIySy_def vIzSz_def)

lemma Hs_cols: "map (matvec Hs) vector_operators =
   [[0, 0, 0, 0, 0, 0, 0, 0, 0, 0, 0, 0, 0, 0, 0, 0],
    [Complex 0 (- (5 / 2)), - (3 / 2), 2, 0, 3 / 2, Complex 0 (- (5 / 2)), 0, - 1, - 2, 0, Complex 0 (5 / 2), 3 / 2, 0, 1, - (3 / 2), Complex 0 (5 / 2)],
    [Complex 0 2, Complex 0 (3 / 2), Complex 0 (- 2), 0, Complex 0 (3 / 2), Complex 0 2, 0, Complex 0 1, Complex 0 (- 2), 0, Complex 0 (- 2), Complex 0 (- (3 / 2)), 0, Complex 0 1, Complex 0 (- (3 / 2)), Complex 0 (- 2)],
    [0, 0, Complex (- 2) (5 / 2), 0, 0, 0, - 3, Complex (- 2) (5 / 2), Complex 2 (5 / 2), 3, 0, 0, 0, Complex 2 (5 / 2), 0, 0],
    [Complex 0 (- (5 / 2)), 5 / 2, - (3 / 2), 0, - (5 / 2), Complex 0 (5 / 2), 0, 3 / 2, 3 / 2, 0, Complex 0 (- (5 / 2)), - (1 / 2), 0, - (3 / 2), 1 / 2, Complex 0 (5 / 2)],
    [Complex 0 2, Complex 0 (- (5 / 2)), Complex 0 (3 / 2), 0, Complex 0 (- (5 / 2)), Complex 0 (- 2), 0, Complex 0 (- (3 / 2)), Complex 0 (3 / 2), 0, Complex 0 2, Complex 0 (1 / 2), 0, Complex 0 (- (3 / 2)), Complex 0 (1 / 2), Complex 0 (- 2)],
    [0, Complex (- 2) (5 / 2), 0, 0, Complex 2 (5 / 2), 0, 3, 0, 0, - 3, 0, Complex (- 2) (5 / 2), 0, 0, Complex 2 (5 / 2), 0],
    [Complex 0 (- (5 / 2)), - (3 / 2), 2, Complex (- 2) (5 / 2), 3 / 2, Complex 0 (5 / 2), Complex 2 (5 / 2), 1, - 2, Complex (- 2) (5 / 2), Complex 0 (5 / 2), - (3 / 2), Complex 2 (5 / 2), - 1, 3 / 2, Complex 0 (- (5 / 2))],
    [Complex 0 2, Complex 0 (3 / 2), Complex 0 (- 2), Complex (5 / 2) 2, Complex 0 (3 / 2), Complex 0 (- 2), Complex (5 / 2) (- 2), Complex 0 (- 1), Complex 0 (- 2), Complex (- (5 / 2)) (- 2), Complex 0 (- 2), Complex 0 (3 / 2), Complex (- (5 / 2)) 2, Complex 0 (- 1), Complex 0 (3 / 2), Complex 0 2],
    [Complex 0 (- (5 / 2)), 5 / 2, - (3 / 2), Complex (- 2) (5 / 2), - (5 / 2), Complex 0 (5 / 2), Complex (- 2) (5 / 2), - (3 / 2), 3 / 2, Complex 2 (5 / 2), Complex 0 (5 / 2), 1 / 2, Complex 2 (5 / 2), 3 / 2, - (1 / 2), Complex 0 (- (5 / 2))],
    [Complex 0 2, Complex 0 (- (5 / 2)), Complex 0 (3 / 2), Complex (5 / 2) 2, Complex 0 (- (5 / 2)), Complex 0 (- 2), Complex (- (5 / 2)) (- 2), Complex 0 (3 / 2), Complex 0 (3 / 2), Complex (5 / 2) (- 2), Complex 0 (- 2), Complex 0 (- (1 / 2)), Complex (- (5 / 2)) 2, Complex 0 (3 / 2), Complex 0 (- (1 / 2)), Complex 0 2],
    [0, Complex 0 (- (5 / 2)), Complex 0 (- (5 / 2)), 3 / 2, Complex 0 (- (5 / 2)), 0, - (1 / 2), Complex 0 (5 / 2), Complex 0 (- (5 / 2)), 1 / 2, 0, Complex 0 (5 / 2), - (3 / 2), Complex 0 (5 / 2), Complex 0 (5 / 2), 0],
    [0, - (5 / 2), Complex 0 2, Complex 0 (- (3 / 2)), 5 / 2, Complex 0 (- 3), Complex 0 (- (1 / 2)), Complex 0 (- 2), Complex 0 2, Complex 0 (- (1 / 2)), Complex 0 3, 5 / 2, Complex 0 (- (3 / 2)), Complex 0 (- 2), - (5 / 2), 0],
    [0, Complex 0 2, - (5 / 2), Complex 0 (- (3 / 2)), Complex 0 2, Complex 0 3, Complex 0 (1 / 2), 5 / 2, 5 / 2, Complex 0 (1 / 2), Complex 0 (- 3), Complex 0 (- 2), Complex 0 (- (3 / 2)), - (5 / 2), Complex 0 (- 2), 0],
    [0, 2, 2, - (3 / 2), - 2, 0, - (1 / 2), - 2, - 2, 1 / 2, 0, - 2, 3 / 2, 2, 2, 0],
    [0, Complex (- 2) (5 / 2), Complex (- 2) (5 / 2), 0, Complex 2 (5 / 2), 0, 0, Complex 2 (- (5 / 2)), Complex 2 (5 / 2), 0, 0, Complex 2 (- (5 / 2)), 0, Complex (- 2) (- (5 / 2)), Complex (- 2) (- (5 / 2)), 0]]"
  by (simp add: Hs_val vector_operators_val matvec_def dot_def complex_eq_iff)

section \<open>The projected superoperator\<close>

lemma length_vector_operators: "length vector_operators = 16"
  by (simp add: vector_operators_def)

lemma map_upt_nth: "length xs = n \<Longrightarrow> map (\<lambda>i. f (xs ! i)) [0..<n] = map f xs"
proof -
  assume "length xs = n"
  then have "map (\<lambda>i. f (xs ! i)) [0..<n] = map f (map (\<lambda>i. xs ! i) [0..<length xs])"
    by (simp add: o_def)
  then show ?thesis by (simp add: map_nth)
qed

lemma Hsp_of_maps:
  "Hsp_of M = map (\<lambda>rop. map (\<lambda>w. np_div (dot rop w) (dot rop rop)) (map (matvec M) vector_operators)) vector_operators"
proof -
  have "Hsp_of M = map (\<lambda>r. (\<lambda>rop. map (\<lambda>c. (\<lambda>cop. np_div (dot rop (matvec M cop)) (dot rop rop)) (vector_operators ! c)) [0..<16]) (vector_operators ! r)) [0..<16]"
    by (simp add: Hsp_of_closed Hsp_entry_def Let_def)
  also have "\<dots> = map (\<lambda>r. (\<lambda>rop. map (\<lambda>cop. np_div (dot rop (matvec M cop)) (dot rop rop)) vector_operators) (vector_operators ! r)) [0..<16]"
    by (subst map_upt_nth [OF length_vector_operators]) (rule refl)
  also have "\<dots> = map (\<lambda>rop. map (\<lambda>cop. np_div (dot rop (matvec M cop)) (dot rop rop)) vector_operators) vector_operators"
    by (rule map_upt_nth [OF length_vector_operators])
  finally show ?thesis by (simp add: o_def)
qed

lemma norms_val: "map (\<lambda>v. dot v v) vector_operators = [1, 1, - 1, 1, 1, - 1, 1, 1, - 1, 1, - 1, 1, - 1, - 1, 1, 1]"
  by (simp add: vector_operators_val dot_def complex_eq_iff)

text \<open>The projected superoperator of the script's Hamiltonian, written out.\<close>

lemma Hsp_val: "Hsp =
   [[Some 0, Some 0, Some 0, Some 0, Some 0, Some 0, Some 0, Some 0, Some 0, Some 0, Some 0, Some 0, Some 0, Some 0, Some 0, Some 0],
    [Some 0, Some 0, Some (Complex 0 (- 1)), Some (Complex 0 5), Some 0, Some 0, Some 0, Some 0, Some (Complex 0 (- 3)), Some 0, Some (Complex 0 3), Some 0, Some 0, Some 0, Some 0, Some 0],
    [Some 0, Some (Complex 0 1), Some 0, Some (Complex 0 (- 4)), Some 0, Some 0, Some 0, Some (Complex 0 3), Some 0, Some (Complex 0 (- 3)), Some 0, Some 0, Some 0, Some 0, Some 0, Some 0],
    [Some 0, Some (Complex 0 (- 5)), Some (Complex 0 4), Some 0, Some 0, Some 0, Some 0, Some 0, Some 0, Some 0, Some 0, Some 0, Some (Complex 0 (- 3)), Some (Complex 0 3), Some 0, Some 0],
    [Some 0, Some 0, Some 0, Some 0, Some 0, Some (Complex 0 (- 2)), Some (Complex 0 5), Some 0, Some (Complex 0 3), Some 0, Some (Complex 0 (- 3)), Some 0, Some 0, Some 0, Some 0, Some 0],
    [Some 0, Some 0, Some 0, Some 0, Some (Complex 0 2), Some 0, Some (Complex 0 (- 4)), Some (Complex 0 (- 3)), Some 0, Some (Complex 0 3), Some 0, Some 0, Some 0, Some 0, Some 0, Some 0],
    [Some 0, Some 0, Some 0, Some 0, Some (Complex 0 (- 5)), Some (Complex 0 4), Some 0, Some 0, Some 0, Some 0, Some 0, Some 0, Some (Complex 0 3), Some (Complex 0 (- 3)), Some 0, Some 0],
    [Some 0, Some 0, Some (Complex 0 (- 3)), Some 0, Some 0, Some (Complex 0 3), Some 0, Some 0, Some (Complex 0 (- 1)), Some 0, Some 0, Some (Complex 0 (- 5)), Some (Complex 0 4), Some 0, Some 0, Some (Complex 0 5)],
    [Some 0, Some (Complex 0 3), Some 0, Some 0, Some (Complex 0 (- 3)), Some 0, Some 0, Some (Complex 0 1), Some 0, Some 0, Some 0, Some 0, Some 0, Some (Complex 0 (- 5)), Some (Complex 0 4), Some (Complex 0 (- 4))],
    [Some 0, Some 0, Some (Complex 0 3), Some 0, Some 0, Some (Complex 0 (- 3)), Some 0, Some 0, Some 0, Some 0, Some (Complex 0 (- 2)), Some (Complex 0 (- 5)), Some 0, Some (Complex 0 4), Some 0, Some (Complex 0 5)],
    [Some 0, Some (Complex 0 (- 3)), Some 0, Some 0, Some (Complex 0 3), Some 0, Some 0, Some 0, Some 0, Some (Complex 0 2), Some 0, Some 0, Some (Complex 0 (- 5)), Some 0, Some (Complex 0 4), Some (Complex 0 (- 4))],
    [Some 0, Some 0, Some 0, Some 0, Some 0, Some 0, Some 0, Some (Complex 0 5), Some 0, Some (Complex 0 5), Some 0, Some 0, Some (Complex 0 (- 2)), Some (Complex 0 (- 1)), Some 0, Some 0],
    [Some 0, Some 0, Some 0, Some (Complex 0 3), Some 0, Some 0, Some (Complex 0 (- 3)), Some (Complex 0 (- 4)), Some 0, Some 0, Some (Complex 0 5), Some (Complex 0 2), Some 0, Some 0, Some (Complex 0 (- 1)), Some 0],
    [Some 0, Some 0, Some 0, Some (Complex 0 (- 3)), Some 0, Some 0, Some (Complex 0 3), Some 0, Some (Complex 0 5), Some (Complex 0 (- 4)), Some 0, Some (Complex 0 1), Some 0, Some 0, Some (Complex 0 (- 2)), Some 0],
    [Some 0, Some 0, Some 0, Some 0, Some 0, Some 0, Some 0, Some 0, Some (Complex 0 (- 4)), Some 0, Some (Complex 0 (- 4)), Some 0, Some (Complex 0 1), Some (Complex 0 2), Some 0, Some 0],
    [Some 0, Some 0, Some 0, Some 0, Some 0, Some 0, Some 0, Some (Complex 0 (- 5)), Some (Complex 0 4), Some (Complex 0 (- 5)), Some (Complex 0 4), Some 0, Some 0, Some 0, Some 0, Some 0]]"
  unfolding Hsp_def Hsp_of_maps Hs_cols unfolding vector_operators_val by (simp add: np_div_def dot_def complex_eq_iff Re_divide Im_divide)

lemma norms_nonzero: "r < 16 \<Longrightarrow> dot (vector_operators ! r) (vector_operators ! r) \<noteq> 0"
proof -
  assume r: "r < 16"
  have "list_all (\<lambda>x. x \<noteq> 0) (map (\<lambda>v. dot v v) vector_operators)"
    unfolding norms_val by simp
  then have "map (\<lambda>v. dot v v) vector_operators ! r \<noteq> 0"
    using r by (simp add: list_all_length length_vector_operators)
  then show ?thesis using r by (simp add: length_vector_operators)
qed

lemma Hsp_of_nth: "r < 16 \<Longrightarrow> c < 16 \<Longrightarrow> Hsp_of M ! r ! c = Hsp_entry M r c"
  by (simp add: Hsp_of_closed)

lemma Hsp_of_defined:
  "r < 16 \<Longrightarrow> c < 16 \<Longrightarrow>
   Hsp_of M ! r ! c = Some (dot (vector_operators ! r) (matvec M (vector_operators ! c))
                              / dot (vector_operators ! r) (vector_operators ! r))"
  by (simp add: Hsp_of_nth Hsp_entry_def Let_def np_div_def norms_nonzero)

lemma vector_operators_entries:
  "list_all (\<lambda>r. list_all (\<lambda>i. list_all (\<lambda>j.
      vector_operators ! r ! (4 * i + j) = (if r = 0 then 1 / 2 else 1) * product_operators ! r ! i ! j)
    [0..<4]) [0..<4]) [0..<16]"
  unfolding vector_operators_val product_operators_def op_vals range_16 range_4 by simp

text \<open>
  C1. For every raw superoperator \<open>M\<close>, the projected superoperator \<open>Hsp_of M\<close> is a
  16x16 array whose entry at row \<open>r\<close> and column \<open>c\<close> is the quotient of
  \<open>basis[r] . M . basis[c]\<close> by \<open>basis[r] . basis[r]\<close>. The basis is the list of
  flattened product operators in the order identity, Ix, Iy, Iz, Sx, Sy, Sz, IxSz, IySz,
  IzSx, IzSy, IxSx, IxSy, IySx, IySy, IzSz; the flattening is row-major (entry
  \<open>4 * i + j\<close> of the vector is entry \<open>(i, j)\<close> of the operator), and the identity's
  vector alone is scaled by one half.
\<close>

theorem Hsp_of_entry:
  assumes "r < 16" and "c < 16" and "i < 4" and "j < 4"
  shows "length (Hsp_of M) = 16 \<and> length (Hsp_of M ! r) = 16 \<and>
     Hsp_of M ! r ! c = Some (dot (vector_operators ! r) (matvec M (vector_operators ! c))
                                / dot (vector_operators ! r) (vector_operators ! r)) \<and>
     vector_operators =
       [svec (1 / 2) (flatten E), flatten pIx, flatten pIy, flatten pIz,
        flatten pSx, flatten pSy, flatten pSz, flatten pIxSz, flatten pIySz,
        flatten pIzSx, flatten pIzSy, flatten pIxSx, flatten pIxSy, flatten pIySx,
        flatten pIySy, flatten pIzSz] \<and>
     vector_operators ! r ! (4 * i + j)
       = (if r = 0 then 1 / 2 else 1) * product_operators ! r ! i ! j"
proof -
  have "length (Hsp_of M) = 16" "length (Hsp_of M ! r) = 16"
    using assms by (simp_all add: Hsp_of_closed)
  moreover note Hsp_of_defined [OF assms(1,2)]
  moreover have "vector_operators =
       [svec (1 / 2) (flatten E), flatten pIx, flatten pIy, flatten pIz,
        flatten pSx, flatten pSy, flatten pSz, flatten pIxSz, flatten pIySz,
        flatten pIzSx, flatten pIzSy, flatten pIxSx, flatten pIxSy, flatten pIySx,
        flatten pIySy, flatten pIzSz]"
    by (simp add: vector_operators_def vE_def vIx_def vIy_def vIz_def vSx_def vSy_def vSz_def
        vIxSz_def vIySz_def vIzSx_def vIzSy_def vIxSx_def vIxSy_def vIySx_def vIySy_def vIzSz_def)
  moreover have "vector_operators ! r ! (4 * i + j)
                   = (if r = 0 then 1 / 2 else 1) * product_operators ! r ! i ! j"
  proof -
    note all_below_16 [OF vector_operators_entries assms(1)]
    note all_below_4 [OF this assms(3)]
    note all_below_4 [OF this assms(4)]
    then show ?thesis .
  qed
  ultimately show ?thesis by blast
qed

theorem Hsp_of_entry_witness:
  "(1::nat) < 16 \<and> (2::nat) < 16 \<and> (3::nat) < 4 \<and> (0::nat) < 4 \<and>
   length (Hsp_of Hs) = 16 \<and> length (Hsp_of Hs ! 1) = 16 \<and>
   Hsp_of Hs ! 1 ! 2 = Some (dot (vector_operators ! 1) (matvec Hs (vector_operators ! 2))
                                / dot (vector_operators ! 1) (vector_operators ! 1)) \<and>
   vector_operators ! 1 ! 12 = product_operators ! 1 ! 3 ! 0"
  using Hsp_of_entry [of 1 2 3 0 Hs] by simp

text \<open>
  C8. The self-dot-product of every vector of the projection basis (the identity's vector
  scaled by one half) is not zero, so whatever the raw superoperator \<open>M\<close> is, no entry of
  the projected superoperator is the undefined quotient.
\<close>

theorem projection_divisor_nonzero:
  "r < 16 \<Longrightarrow> c < 16 \<Longrightarrow>
   dot (vector_operators ! r) (vector_operators ! r) \<noteq> 0 \<and> Hsp_of M ! r ! c \<noteq> None"
  by (simp add: norms_nonzero Hsp_of_defined)

theorem projection_divisor_nonzero_witness:
  "(2::nat) < 16 \<and> (5::nat) < 16 \<and>
   dot (vector_operators ! 2) (vector_operators ! 2) \<noteq> 0 \<and> Hsp_of Hs ! 2 ! 5 \<noteq> None"
  using projection_divisor_nonzero [of 2 5 Hs] by simp

text \<open>
  C2. For the script's Hamiltonian (Iz with 1, Sz with 2, IxSx + IySy + IzSz with 3,
  Ix + Sx with 4, Iy + Sy with 5), every entry of the projected superoperator is a number
  whose real part is zero.
\<close>

theorem Hsp_real_part_zero: "r < 16 \<Longrightarrow> c < 16 \<Longrightarrow> \<exists>z. Hsp ! r ! c = Some z \<and> Re z = 0"
proof -
  assume rc: "r < 16" "c < 16"
  have "list_all (list_all (\<lambda>e. \<exists>z. e = Some z \<and> Re z = 0)) Hsp"
    unfolding Hsp_val by simp
  moreover have "length Hsp = 16" "length (Hsp ! r) = 16"
    using rc by (simp_all add: Hsp_def Hsp_of_closed)
  ultimately show ?thesis using rc by (simp add: list_all_length)
qed

theorem Hsp_real_part_zero_witness:
  "(1::nat) < 16 \<and> (2::nat) < 16 \<and> (\<exists>z. Hsp ! 1 ! 2 = Some z \<and> Re z = 0)"
  using Hsp_real_part_zero [of 1 2] by simp

text \<open>
  C9. For the script's Hamiltonian, every diagonal entry of the projected superoperator is
  exactly zero.
\<close>

theorem Hsp_diagonal_zero: "r < 16 \<Longrightarrow> Hsp ! r ! r = Some 0"
proof -
  have "list_all (\<lambda>r. Hsp ! r ! r = Some 0) [0..<16]"
    unfolding Hsp_val range_16 by simp
  then show "r < 16 \<Longrightarrow> Hsp ! r ! r = Some 0"
    by (rule all_below_16)
qed

theorem Hsp_diagonal_zero_witness:
  "(4::nat) < 16 \<and> Hsp ! 4 ! 4 = Some 0"
  using Hsp_diagonal_zero [of 4] by simp

section \<open>Orthogonality of the product operators\<close>

lemma gram: "list_all (\<lambda>i. list_all (\<lambda>j.
    trace_ip (product_operators ! i) (product_operators ! j) = (if i = j then (if i = 0 then 4 else 1) else 0))
    [0..<16]) [0..<16]"
  unfolding product_operators_def op_vals range_16 by (simp add: trace_ip_def flatten_def complex_eq_iff)

text \<open>
  The specification gives every product operator the squared norm 4. The operators of the
  script carry the factor \<open>1/2\<close> of the spin matrices: the squared norm of \<open>Ix\<close> of
  nucleus 1 under the trace inner product is 1, not 4.
\<close>

theorem squared_norm_4_counterexample:
  "trace_ip pIx pIx = 1 \<and> trace_ip pIx pIx \<noteq> 4"
  by (simp add: pIx_val trace_ip_def flatten_def)

text \<open>
  C3, with the norms the operators of the script have. The sixteen product operators are
  pairwise orthogonal under the trace inner product; the squared norm of the identity is 4
  and the squared norm of each of the other fifteen is 1.
\<close>

theorem product_operators_trace_ip:
  "i < 16 \<Longrightarrow> j < 16 \<Longrightarrow>
   trace_ip (product_operators ! i) (product_operators ! j)
     = (if i = j then (if i = 0 then 4 else 1) else 0)"
proof -
  assume i: "i < 16" and j: "j < 16"
  note all_below_16 [OF gram i]
  note all_below_16 [OF this j]
  then show ?thesis .
qed

theorem product_operators_trace_ip_witness:
  "(3::nat) < 16 \<and> (0::nat) < 16 \<and> (7::nat) < 16 \<and>
   trace_ip (product_operators ! 3) (product_operators ! 3) = 1 \<and>
   trace_ip (product_operators ! 0) (product_operators ! 0) = 4 \<and>
   trace_ip (product_operators ! 3) (product_operators ! 7) = 0"
  using product_operators_trace_ip [of 3 3] product_operators_trace_ip [of 0 0]
    product_operators_trace_ip [of 3 7] by simp

section \<open>Linearity of the raw superoperator\<close>

lemma length_4: "length xs = 4 \<Longrightarrow> \<exists>a b c d. xs = [a, b, c, d]"
  by (auto simp: eval_nat_numeral length_Suc_conv)

lemma is_4x4_rows:
  assumes "is_4x4 A"
  shows "\<exists>a0 a1 a2 a3 b0 b1 b2 b3 c0 c1 c2 c3 d0 d1 d2 d3.
           A = [[a0, a1, a2, a3], [b0, b1, b2, b3], [c0, c1, c2, c3], [d0, d1, d2, d3]]"
proof -
  from assms obtain r0 r1 r2 r3 where A: "A = [r0, r1, r2, r3]"
    unfolding is_4x4_def using length_4 by blast
  with assms have "length r0 = 4" "length r1 = 4" "length r2 = 4" "length r3 = 4"
    by (simp_all add: is_4x4_def)
  then obtain a0 a1 a2 a3 b0 b1 b2 b3 c0 c1 c2 c3 d0 d1 d2 d3 where
    "r0 = [a0, a1, a2, a3]" "r1 = [b0, b1, b2, b3]" "r2 = [c0, c1, c2, c3]" "r3 = [d0, d1, d2, d3]"
    using length_4 by metis
  with A show ?thesis by blast
qed

text \<open>
  C5. The raw superoperator of line 99 is linear in the 4x4 Hamiltonian: for 4x4 arrays
  \<open>H1\<close>, \<open>H2\<close> and scalars \<open>a\<close>, \<open>b\<close>, the superoperator of \<open>a * H1 + b * H2\<close> is
  \<open>a\<close> times that of \<open>H1\<close> plus \<open>b\<close> times that of \<open>H2\<close>; and the superoperator of the
  4x4 zero matrix is the 16x16 zero matrix.
\<close>

theorem Hs_of_linear:
  assumes "is_4x4 H1" and "is_4x4 H2"
  shows "Hs_of (madd (smult a H1) (smult b H2)) = madd (smult a (Hs_of H1)) (smult b (Hs_of H2))
       \<and> Hs_of (replicate 4 (replicate 4 0)) = replicate 16 (replicate 16 0)"
proof
  obtain a0 a1 a2 a3 b0 b1 b2 b3 c0 c1 c2 c3 d0 d1 d2 d3 where
    H1: "H1 = [[a0, a1, a2, a3], [b0, b1, b2, b3], [c0, c1, c2, c3], [d0, d1, d2, d3]]"
    using is_4x4_rows [OF assms(1)] by blast
  obtain e0 e1 e2 e3 f0 f1 f2 f3 g0 g1 g2 g3 h0 h1 h2 h3 where
    H2: "H2 = [[e0, e1, e2, e3], [f0, f1, f2, f3], [g0, g1, g2, g3], [h0, h1, h2, h3]]"
    using is_4x4_rows [OF assms(2)] by blast
  show "Hs_of (madd (smult a H1) (smult b H2)) = madd (smult a (Hs_of H1)) (smult b (Hs_of H2))"
    unfolding H1 H2 by (simp add: Hs_of_def E_def uni_def kron_def msub_def madd_def smult_def algebra_simps)
  show "Hs_of (replicate 4 (replicate 4 0)) = replicate 16 (replicate 16 0)"
    by (simp add: eval_nat_numeral Hs_of_def E_def uni_def kron_def msub_def)
qed

theorem Hs_of_linear_witness:
  "is_4x4 pIz \<and> is_4x4 pSy \<and>
   Hs_of (madd (smult 2 pIz) (smult (Complex 0 3) pSy))
     = madd (smult 2 (Hs_of pIz)) (smult (Complex 0 3) (Hs_of pSy))"
  using Hs_of_linear [of pIz pSy 2 "Complex 0 3"] by (simp add: is_4x4_def pIz_val pSy_val)

section \<open>The Wigner matrix\<close>

lemma range_5: "[0..<5] = [0, 1, 2, 3, 4]"
  by code_simp

lemma all_below_5: "list_all P [0..<5] \<Longrightarrow> i < 5 \<Longrightarrow> P i"
  by (simp add: list_all_iff)

lemma d_orth:
  fixes s c p q A B :: real
  assumes sc: "s\<^sup>2 + c\<^sup>2 = 1" and A: "A = ((1 + c) / 2)\<^sup>2" and B: "B = ((1 - c) / 2)\<^sup>2"
    and pp: "p\<^sup>2 = 3 / 8" and q: "q = 2 * p"
    and D: "D =
    [[A, - s * (1 + c) / 2, p * s ^ 2, - s * (1 - c) / 2, B],
     [s * (1 + c) / 2, (2 * c - 1) * (1 + c) / 2, - q * s * c, (2 * c + 1) * (1 - c) / 2,
      - s * (1 - c) / 2],
     [p * s ^ 2, q * s * c, (3 * c ^ 2 - 1) / 2, - q * s * c, p * s ^ 2],
     [s * (1 - c) / 2, (2 * c + 1) * (1 - c) / 2, q * s * c, (2 * c - 1) * (1 + c) / 2,
      - s * (1 + c) / 2],
     [B, s * (1 - c) / 2, p * s ^ 2, s * (1 + c) / 2, A]]"
  shows "list_all (\<lambda>i. list_all (\<lambda>j.
           sum_list (map (\<lambda>k. D ! i ! k * D ! j ! k) [0..<5]) = (if i = j then 1 else 0))
         [0..<5]) [0..<5]"
proof -
  have ss: "s * s = 1 - c * c" using sc by (simp add: power2_eq_square algebra_simps)
  have ssx: "s * (s * x) = (1 - c * c) * x" for x using ss by (simp add: mult.assoc [symmetric])
  have pp': "p * p = 3 / 8" using pp by (simp add: power2_eq_square)
  have ppx: "p * (p * x) = 3 / 8 * x" for x using pp' by (simp add: mult.assoc [symmetric])
  show ?thesis
    unfolding D A B q range_5
    by (simp add: power2_eq_square field_simps ss ssx pp' ppx)
qed

lemma sqrt_3_2: "sqrt (3 / 2) = 2 * sqrt (3 / 8)"
proof -
  have "sqrt (3 / 2) = sqrt (4 * (3 / 8))" by simp
  also have "\<dots> = sqrt 4 * sqrt (3 / 8)" by (rule real_sqrt_mult)
  also have "sqrt 4 = sqrt (2\<^sup>2)" by simp
  also have "\<dots> = 2" by (simp del: power2_eq_square)
  finally show ?thesis .
qed

lemma cos_half_4: "cos (b / 2) ^ 4 = ((1 + cos b) / 2)\<^sup>2" for b :: real
proof -
  have "cos b = 2 * (cos (b / 2))\<^sup>2 - 1" using cos_double_cos [of "b / 2"] by simp
  then have "(cos (b / 2))\<^sup>2 = (1 + cos b) / 2" by simp
  moreover have "cos (b / 2) ^ 4 = ((cos (b / 2))\<^sup>2)\<^sup>2" by simp
  ultimately show ?thesis by (simp only:)
qed

lemma sin_half_4: "sin (b / 2) ^ 4 = ((1 - cos b) / 2)\<^sup>2" for b :: real
proof -
  have "cos b = 1 - 2 * (sin (b / 2))\<^sup>2" using cos_double_sin [of "b / 2"] by simp
  then have "(sin (b / 2))\<^sup>2 = (1 - cos b) / 2" by simp
  moreover have "sin (b / 2) ^ 4 = ((sin (b / 2))\<^sup>2)\<^sup>2" by simp
  ultimately show ?thesis by (simp only:)
qed

lemma red_wig_orth:
  "list_all (\<lambda>i. list_all (\<lambda>j.
       sum_list (map (\<lambda>k. red_wig b ! i ! k * red_wig b ! j ! k) [0..<5])
         = (if i = j then 1 else 0))
     [0..<5]) [0..<5]"
proof (rule d_orth [where s = "sin b" and c = "cos b" and p = "sqrt (3 / 8)" and q = "sqrt (3 / 2)"
      and A = "cos (b / 2) ^ 4" and B = "sin (b / 2) ^ 4"])
  show "(sin b)\<^sup>2 + (cos b)\<^sup>2 = 1" by simp
  show "cos (b / 2) ^ 4 = ((1 + cos b) / 2)\<^sup>2" by (rule cos_half_4)
  show "sin (b / 2) ^ 4 = ((1 - cos b) / 2)\<^sup>2" by (rule sin_half_4)
  show "(sqrt (3 / 8))\<^sup>2 = 3 / 8" by simp
  show "sqrt (3 / 2) = 2 * sqrt (3 / 8)" by (rule sqrt_3_2)
  show "red_wig b =
    [[cos (b / 2) ^ 4, - sin b * (1 + cos b) / 2, sqrt (3 / 8) * sin b ^ 2,
      - sin b * (1 - cos b) / 2, sin (b / 2) ^ 4],
     [sin b * (1 + cos b) / 2, (2 * cos b - 1) * (1 + cos b) / 2,
      - sqrt (3 / 2) * sin b * cos b, (2 * cos b + 1) * (1 - cos b) / 2,
      - sin b * (1 - cos b) / 2],
     [sqrt (3 / 8) * sin b ^ 2, sqrt (3 / 2) * sin b * cos b,
      (3 * cos b ^ 2 - 1) / 2, - sqrt (3 / 2) * sin b * cos b,
      sqrt (3 / 8) * sin b ^ 2],
     [sin b * (1 - cos b) / 2, (2 * cos b + 1) * (1 - cos b) / 2,
      sqrt (3 / 2) * sin b * cos b, (2 * cos b - 1) * (1 + cos b) / 2,
      - sin b * (1 + cos b) / 2],
     [sin (b / 2) ^ 4, sin b * (1 - cos b) / 2, sqrt (3 / 8) * sin b ^ 2,
      sin b * (1 + cos b) / 2, cos (b / 2) ^ 4]]"
    by (rule red_wig_def)
qed

lemma generate_wigner_closed:
  "generate_wigner (alpha, beta, gamma)
     = map (\<lambda>row. map (wigner_entry alpha beta gamma row) [0..<5]) [0..<5]"
  by (subst generate_wigner.simps, subst fill_outer) simp_all

lemma phase_cis: "exp (- \<i> * of_int m * of_real t) = cis (- (of_int m * t))"
  by (simp add: cis_conv_exp mult.assoc)

lemma phase_unit:
  "exp (- \<i> * of_int m * of_real t) * cnj (exp (- \<i> * of_int m * of_real t)) = 1"
  unfolding phase_cis by (simp add: cis_cnj cis_mult)

lemma dot_cnj_rows:
  "dot (map (F i) ks) (map (\<lambda>k. cnj (F j k)) ks) = sum_list (map (\<lambda>k. F i k * cnj (F j k)) ks)"
  by (induction ks) (simp_all add: dot_def)

lemma sum_list_scaled:
  "sum_list (map (\<lambda>k. c * complex_of_real (h k)) ks) = c * of_real (sum_list (map h ks))"
  by (induction ks) (simp_all add: algebra_simps)

lemma mat_mul_H_5:
  "mat_mul (map (\<lambda>i. map (F i) [0..<5]) [0..<5]) (mat_H (map (\<lambda>i. map (F i) [0..<5]) [0..<5]))
     = map (\<lambda>i. map (\<lambda>j. dot (map (F i) [0..<5]) (map (\<lambda>k. cnj (F j k)) [0..<5])) [0..<5]) [0..<5]"
  unfolding mat_mul_def mat_H_def range_5 by simp

lemma unitary_general:
  fixes a g :: "nat \<Rightarrow> complex" and d :: "nat \<Rightarrow> nat \<Rightarrow> real"
  assumes a: "\<And>i. a i * cnj (a i) = 1" and g: "\<And>k. g k * cnj (g k) = 1"
    and orth: "\<And>i j. i < 5 \<Longrightarrow> j < 5 \<Longrightarrow>
       sum_list (map (\<lambda>k. d i k * d j k) [0..<5]) = (if i = j then 1 else 0)"
    and W: "W = map (\<lambda>i. map (\<lambda>k. a i * of_real (d i k) * g k) [0..<5]) [0..<5]"
  shows "mat_mul W (mat_H W) = identity 5"
proof -
  have tm: "a i * of_real (d i k) * g k * cnj (a j * of_real (d j k) * g k)
                = a i * cnj (a j) * of_real (d i k * d j k)" for i j k
  proof -
    have "a i * of_real (d i k) * g k * cnj (a j * of_real (d j k) * g k)
            = a i * cnj (a j) * of_real (d i k * d j k) * (g k * cnj (g k))" by simp
    then show ?thesis by (simp only: g mult_1_right)
  qed
  have entry: "dot (map (\<lambda>k. a i * of_real (d i k) * g k) [0..<5])
                   (map (\<lambda>k. cnj (a j * of_real (d j k) * g k)) [0..<5])
                 = (if i = j then 1 else 0)" if "i < 5" "j < 5" for i j
  proof -
    have "dot (map (\<lambda>k. a i * of_real (d i k) * g k) [0..<5])
              (map (\<lambda>k. cnj (a j * of_real (d j k) * g k)) [0..<5])
            = sum_list (map (\<lambda>k. a i * cnj (a j) * complex_of_real (d i k * d j k)) [0..<5])"
      by (simp only: dot_cnj_rows [where F = "\<lambda>i k. a i * of_real (d i k) * g k"] tm)
    also have "\<dots> = a i * cnj (a j) * of_real (sum_list (map (\<lambda>k. d i k * d j k) [0..<5]))"
      by (rule sum_list_scaled)
    also have "\<dots> = (if i = j then 1 else 0)"
      using that by (simp add: orth a)
    finally show ?thesis .
  qed
  have "mat_mul W (mat_H W)
          = map (\<lambda>i. map (\<lambda>j. dot (map (\<lambda>k. a i * of_real (d i k) * g k) [0..<5])
                                      (map (\<lambda>k. cnj (a j * of_real (d j k) * g k)) [0..<5]))
                         [0..<5]) [0..<5]"
    unfolding W by (rule mat_mul_H_5)
  also have "\<dots> = map (\<lambda>i. map (\<lambda>j. if i = j then 1 else 0) [0..<5]) [0..<5]"
  proof (intro map_cong refl)
    fix i j
    assume "i \<in> set [0..<5]" and "j \<in> set [0..<5]"
    then have "i < 5" and "j < 5" by simp_all
    then show "dot (map (\<lambda>k. a i * of_real (d i k) * g k) [0..<5])
                   (map (\<lambda>k. cnj (a j * of_real (d j k) * g k)) [0..<5])
                 = (if i = j then 1 else 0)"
      by (rule entry)
  qed
  finally show ?thesis by (simp only: identity_def)
qed

lemma wigner_entry_row:
  "wigner_entry alpha beta gamma row =
     (\<lambda>col. exp (- \<i> * of_int (plus_to_minus_two ! row) * of_real alpha)
              * of_real (red_wig beta ! row ! col)
              * exp (- \<i> * of_int (plus_to_minus_two ! col) * of_real gamma))"
  by (rule ext) (simp add: wigner_entry_def Let_def)

text \<open>
  C4. For all real Euler angles the matrix \<open>W\<close> that \<open>generate_wigner\<close> returns is
  unitary: \<open>W\<close> times its conjugate transpose is the 5x5 identity matrix.
\<close>

theorem generate_wigner_unitary:
  "mat_mul (generate_wigner (alpha, beta, gamma)) (mat_H (generate_wigner (alpha, beta, gamma)))
     = identity 5"
proof (rule unitary_general [where a = "\<lambda>i. exp (- \<i> * of_int (plus_to_minus_two ! i) * of_real alpha)"
      and g = "\<lambda>k. exp (- \<i> * of_int (plus_to_minus_two ! k) * of_real gamma)"
      and d = "\<lambda>i k. red_wig beta ! i ! k"])
  fix i j :: nat
  show "exp (- \<i> * of_int (plus_to_minus_two ! i) * of_real alpha)
          * cnj (exp (- \<i> * of_int (plus_to_minus_two ! i) * of_real alpha)) = 1"
    by (rule phase_unit)
  show "exp (- \<i> * of_int (plus_to_minus_two ! i) * of_real gamma)
          * cnj (exp (- \<i> * of_int (plus_to_minus_two ! i) * of_real gamma)) = 1"
    by (rule phase_unit)
  show "sum_list (map (\<lambda>k. red_wig beta ! i ! k * red_wig beta ! j ! k) [0..<5])
          = (if i = j then 1 else 0)" if i: "i < 5" and j: "j < 5"
  proof -
    note all_below_5 [OF red_wig_orth i]
    note all_below_5 [OF this j]
    then show ?thesis .
  qed
  show "generate_wigner (alpha, beta, gamma)
          = map (\<lambda>i. map (\<lambda>k. exp (- \<i> * of_int (plus_to_minus_two ! i) * of_real alpha)
                                 * of_real (red_wig beta ! i ! k)
                                 * exp (- \<i> * of_int (plus_to_minus_two ! k) * of_real gamma))
                         [0..<5]) [0..<5]"
    by (simp only: generate_wigner_closed wigner_entry_row)
qed

lemma red_wig_0: "red_wig 0 = [[1, 0, 0, 0, 0], [0, 1, 0, 0, 0], [0, 0, 1, 0, 0], [0, 0, 0, 1, 0], [0, 0, 0, 0, 1]]"
  by (simp add: red_wig_def)

text \<open>
  C6. With \<open>beta = 0\<close> the Wigner matrix is diagonal, and its diagonal entries are
  \<open>exp(-i m (alpha + gamma))\<close> for \<open>m = 2, 1, 0, -1, -2\<close> in this order; at three zero
  angles it is the 5x5 identity matrix.
\<close>

theorem generate_wigner_beta_zero:
  "generate_wigner (alpha, 0, gamma) =
     [[exp (- \<i> * 2 * of_real (alpha + gamma)), 0, 0, 0, 0],
      [0, exp (- \<i> * 1 * of_real (alpha + gamma)), 0, 0, 0],
      [0, 0, exp (- \<i> * 0 * of_real (alpha + gamma)), 0, 0],
      [0, 0, 0, exp (- \<i> * (- 1) * of_real (alpha + gamma)), 0],
      [0, 0, 0, 0, exp (- \<i> * (- 2) * of_real (alpha + gamma))]]
   \<and> generate_wigner (0, 0, 0) = identity 5"
  unfolding generate_wigner_closed identity_def range_5
  by (simp add: wigner_entry_def red_wig_0 plus_to_minus_two_def exp_add [symmetric] algebra_simps)

lemma phase_periodic:
  "exp (- \<i> * of_int m * of_real (t + 2 * pi)) = exp (- \<i> * of_int m * of_real t)"
proof -
  have "exp (- \<i> * of_int m * of_real (t + 2 * pi)) = cis (- (of_int m * (t + 2 * pi)))"
    by (rule phase_cis)
  also have "\<dots> = cis (- (of_int m * t)) * cis (2 * pi * of_int (- m))"
    by (simp add: cis_mult algebra_simps)
  also have "cis (2 * pi * of_int (- m)) = 1"
    by (rule cis_multiple_2pi) simp
  finally show ?thesis by (simp only: phase_cis mult_1_right)
qed

lemma red_wig_periodic: "red_wig (beta + 2 * pi) = red_wig beta"
proof -
  have h: "(beta + 2 * pi) / 2 = beta / 2 + pi" by simp
  have c: "cos ((beta + 2 * pi) / 2) = - cos (beta / 2)" unfolding h by simp
  have s: "sin ((beta + 2 * pi) / 2) = - sin (beta / 2)" unfolding h by simp
  show ?thesis by (simp add: red_wig_def c s)
qed

text \<open>
  C10. \<open>generate_wigner\<close> has period \<open>2 pi\<close> in each of the three Euler angles.
\<close>

theorem generate_wigner_periodic:
  "generate_wigner (alpha + 2 * pi, beta, gamma) = generate_wigner (alpha, beta, gamma)
   \<and> generate_wigner (alpha, beta + 2 * pi, gamma) = generate_wigner (alpha, beta, gamma)
   \<and> generate_wigner (alpha, beta, gamma + 2 * pi) = generate_wigner (alpha, beta, gamma)"
  by (simp only: generate_wigner_closed wigner_entry_row phase_periodic red_wig_periodic simp_thms)


end
